theory Spec2Isabelle
  imports Main "HOL-Library.Word"
begin

section \<open>The local bitmap browser of indra/newview/lllocalbitmaps.cpp\<close>

text \<open>
  The file watches image files on disk. A unit (\<open>LLLocalBitmap\<close>) decodes its file when
  the file changes, publishes the bitmap under a fresh texture identity and retargets every
  consumer of the old identity; the manager (\<open>LLLocalBitmapMgr\<close>, all static members)
  keeps the list of units, the heartbeat timer and the deferred rebake flag.

  The model is a state-passing one. Everything the code reaches through a global
  (\<open>gDirUtilp\<close>, \<open>gTextureList\<close>, \<open>gObjectList\<close>, \<open>gAgentWearables\<close>,
  \<open>gAgentAvatarp\<close>, the manager's statics) is a field of the record \<open>globals\<close>; a
  member function of a unit takes the unit and the globals and returns both. Every call
  that leaves the file is also appended to the field \<open>calls\<close>, in program order.
\<close>

subsection \<open>Identities, enumerations, constants\<close>

text \<open>\<open>LLUUID\<close> is a 128-bit value; \<open>LLUUID::null\<close> is the all-zero one.\<close>

type_synonym LLUUID = "128 word"

definition LLUUID_null :: LLUUID where
  "LLUUID_null = 0"

definition isNull :: "LLUUID \<Rightarrow> bool" where
  "isNull u = (u = LLUUID_null)"

text \<open>
  \<open>IMG_DEFAULT\<close> and \<open>IMG_DEFAULT_AVATAR\<close> are declared outside this file; the
  functions that use them take their values as a parameter.
\<close>

record constants =
  IMG_DEFAULT :: LLUUID
  IMG_DEFAULT_AVATAR :: LLUUID

datatype ELinkStatus = LS_ON | LS_BROKEN

datatype EExtensionType = ET_IMG_BMP | ET_IMG_TGA | ET_IMG_JPG | ET_IMG_PNG

text \<open>
  The three avatar enumerations are declared in headers outside this file. The model has
  every enumerator this file names. \<open>WT_OTHER\<close> and \<open>BAKED_OTHER\<close> stand for the
  enumerators it never names, which \<open>getTexIndex\<close> sends to its \<open>default\<close> branches.
\<close>

datatype EType =
    WT_ALPHA | WT_EYES | WT_GLOVES | WT_JACKET | WT_PANTS | WT_SHIRT | WT_SHOES
  | WT_SKIN | WT_SKIRT | WT_SOCKS | WT_TATTOO | WT_UNDERPANTS | WT_UNDERSHIRT
  | WT_OTHER

datatype EBakedTextureIndex =
    BAKED_HEAD | BAKED_UPPER | BAKED_LOWER | BAKED_EYES | BAKED_SKIRT | BAKED_HAIR
  | BAKED_OTHER

datatype ETextureIndex =
    TEX_EYES_ALPHA | TEX_HAIR_ALPHA | TEX_HEAD_ALPHA | TEX_LOWER_ALPHA | TEX_UPPER_ALPHA
  | TEX_EYES_IRIS | TEX_UPPER_GLOVES | TEX_LOWER_JACKET | TEX_UPPER_JACKET
  | TEX_LOWER_PANTS | TEX_UPPER_SHIRT | TEX_LOWER_SHOES
  | TEX_HEAD_BODYPAINT | TEX_LOWER_BODYPAINT | TEX_UPPER_BODYPAINT
  | TEX_SKIRT | TEX_LOWER_SOCKS
  | TEX_HEAD_TATTOO | TEX_LOWER_TATTOO | TEX_UPPER_TATTOO
  | TEX_LOWER_UNDERPANTS | TEX_UPPER_UNDERSHIRT
  | TEX_NUM_INDICES

subsection \<open>The unit and the state around it\<close>

text \<open>
  The fields of \<open>LLLocalBitmap\<close>. \<open>mLastModified\<close> is an \<open>LLSD\<close> that the code only
  ever compares through \<open>asString()\<close>; \<open>mUpdateRetries\<close> is an \<open>S32\<close>.
\<close>

record LLLocalBitmap =
  mFilename :: string
  mShortName :: string
  mValid :: bool
  mLastModified :: string
  mLinkStatus :: ELinkStatus
  mUpdateRetries :: "32 word"
  mTrackingID :: LLUUID
  mWorldID :: LLUUID
  mExtension :: EExtensionType

text \<open>
  A file on disk, as far as this code looks at it: the text \<open>asctime\<close> gives for its
  last write time, and what each raster decoder answers when asked to load and to decode
  it (\<open>tga_components\<close> is what \<open>LLImageTGA::getComponents\<close> returns after a decode).
\<close>

record disk_file =
  last_write_time :: string
  load_ok :: "EExtensionType \<Rightarrow> bool"
  decode_ok :: "EExtensionType \<Rightarrow> bool"
  tga_components :: int

text \<open>
  A face of a drawable is its texture's identity, or \<open>None\<close> when \<open>getTexture()\<close> is
  null; a drawable is its faces, a null face pointer being \<open>None\<close>.
\<close>

type_synonym LLFace = "LLUUID option"

record LLViewerObject =
  mNumFaces :: nat
  mDrawable :: "LLFace option list option"
  isSculpted :: bool
  mVolume :: "LLUUID option"

text \<open>
  A local texture object is its identity and the baked region of its texture layer set
  (\<open>getTexLayer(0)->getTexLayerSet()->getBakedTexIndex()\<close>); a wearable is the list
  \<open>getLocalTextureListSeq\<close> returns, a null entry being \<open>None\<close>.
\<close>

record LLLocalTextureObject =
  mID :: LLUUID
  bakedTexIndex :: EBakedTextureIndex

type_synonym LLWearable = "LLLocalTextureObject option list"

text \<open>The calls that leave the file, each with the arguments that identify its target.\<close>

datatype call =
    Call_load EExtensionType string
  | Call_decode EExtensionType
  | Call_biasedScaleToPowerOfTwo
  | Call_addImage LLUUID
  | Call_deleteImage LLUUID
  | Call_setTEImage nat nat LLUUID
  | Call_sendTEUpdate nat
  | Call_setParameterEntry nat LLUUID
  | Call_setLocalTexture ETextureIndex LLUUID nat
  | Call_wearableUpdated EType
  | Call_forceBakeAllTextures bool

text \<open>
  \<open>files\<close> is the file system (\<open>None\<close>: no such file). \<open>uuid_source\<close> is the sequence
  of identities \<open>LLUUID::generate\<close> will produce and \<open>uuid_drawn\<close> how many were drawn.
  \<open>gObjectList\<close> holds the world objects (a null object is \<open>None\<close>),
  \<open>gAgentWearables\<close> the worn instances of each category (a null wearable is \<open>None\<close>),
  \<open>mLocalTextures\<close> the avatar's texture per channel and wearable index. The last four
  fields before \<open>calls\<close> are the manager's statics; \<open>sTimer\<close> is whether the timer runs.
\<close>

record globals =
  files :: "string \<Rightarrow> disk_file option"
  uuid_source :: "nat \<Rightarrow> LLUUID"
  uuid_drawn :: nat
  gObjectList :: "LLViewerObject option list"
  gAgentWearables :: "EType \<Rightarrow> LLWearable option list"
  mLocalTextures :: "ETextureIndex \<times> nat \<Rightarrow> LLUUID option"
  sBitmapList :: "LLLocalBitmap list"
  sTimer :: bool
  sNeedsRebake :: bool
  calls :: "call list"

definition record_call :: "call \<Rightarrow> globals \<Rightarrow> globals" where
  "record_call c g = g\<lparr>calls := calls g @ [c]\<rparr>"


subsection \<open>The collaborators\<close>

text \<open>
  The file system, the raster decoders, the texture registry, the world-object graph and
  the avatar are code of the viewer outside this file; section 6 of the specification lists
  the calls this file makes into them. Each is modelled by the effect the specification
  gives it, and each call that changes something is recorded in \<open>calls\<close>. Two things
  are taken for granted, as the source takes them: a pointer that the source dereferences
  without a check (the avatar, a texture layer, the sculpt parameter block, a texture found
  by its identity) is valid, and an object has fewer than 256 faces.
\<close>

text \<open>
  Modelled from the spec: \<open>gDirUtilp->fileExists\<close>, the existence check of the file
  system.
\<close>

definition fileExists :: "string \<Rightarrow> globals \<Rightarrow> bool" where
  "fileExists fn g = (files g fn \<noteq> None)"

text \<open>
  Modelled from the spec: \<open>LLUUID::generate\<close>, which makes an identity anew at every
  call; the model draws the next one of \<open>uuid_source\<close>.
\<close>

definition generate :: "globals \<Rightarrow> LLUUID \<times> globals" where
  "generate g = (uuid_source g (uuid_drawn g), g\<lparr>uuid_drawn := Suc (uuid_drawn g)\<rparr>)"

text \<open>
  Modelled from the spec: \<open>load(path)\<close> of the raster decoder of one format
  (\<open>LLImageBMP\<close>, \<open>LLImageTGA\<close>, \<open>LLImageJPEG\<close>, \<open>LLImagePNG\<close>). A file that does
  not exist does not load.
\<close>

definition LLImage_load :: "EExtensionType \<Rightarrow> string \<Rightarrow> globals \<Rightarrow> bool \<times> globals" where
  "LLImage_load fmt fn g =
     ((case files g fn of None \<Rightarrow> False | Some f \<Rightarrow> load_ok f fmt),
      record_call (Call_load fmt fn) g)"

text \<open>
  Modelled from the spec: \<open>decode(targetBuffer)\<close> of the raster decoder of one format,
  on the file it loaded.
\<close>

definition LLImage_decode :: "EExtensionType \<Rightarrow> string \<Rightarrow> globals \<Rightarrow> bool \<times> globals" where
  "LLImage_decode fmt fn g =
     ((case files g fn of None \<Rightarrow> False | Some f \<Rightarrow> decode_ok f fmt),
      record_call (Call_decode fmt) g)"

text \<open>
  Modelled from the spec: \<open>LLImageTGA::getComponents\<close>, the number of colour components
  of the image the TGA decoder decoded.
\<close>

definition getComponents :: "string \<Rightarrow> globals \<Rightarrow> int" where
  "getComponents fn g = (case files g fn of None \<Rightarrow> 0 | Some f \<Rightarrow> tga_components f)"

text \<open>
  Modelled from the spec: \<open>LLImageRaw::biasedScaleToPowerOfTwo\<close>, the resize of the
  decoded bitmap to powers of two. The bitmap itself is not modelled, only the call.
\<close>

definition biasedScaleToPowerOfTwo :: "globals \<Rightarrow> globals" where
  "biasedScaleToPowerOfTwo g = record_call Call_biasedScaleToPowerOfTwo g"

text \<open>
  Modelled from the spec: \<open>gTextureList.addImage\<close>, which registers a texture under its
  identity. The registry is not modelled, only the call.
\<close>

definition addImage :: "LLUUID \<Rightarrow> globals \<Rightarrow> globals" where
  "addImage image_id g = record_call (Call_addImage image_id) g"

text \<open>
  Modelled from the spec: \<open>gTextureList.findImage\<close>, \<open>deleteImage\<close> and \<open>unref\<close> on
  the texture of an identity, which deregister it.
\<close>

definition deleteImage :: "LLUUID \<Rightarrow> globals \<Rightarrow> globals" where
  "deleteImage image_id g = record_call (Call_deleteImage image_id) g"

text \<open>
  Modelled from the spec: \<open>gObjectList.getObject\<close>, the object at a position of the list
  of loaded objects, which may be null.
\<close>

definition getObject :: "nat \<Rightarrow> globals \<Rightarrow> LLViewerObject option" where
  "getObject i g = (if i < length (gObjectList g) then gObjectList g ! i else None)"

text \<open>
  Modelled from the spec: \<open>object->mDrawable->getFace\<close> behind the check of
  \<open>mDrawable\<close>: the face at a position, null when there is no drawable or no such face.
\<close>

definition getFace :: "LLViewerObject \<Rightarrow> nat \<Rightarrow> LLFace option" where
  "getFace obj i =
     (case mDrawable obj of
        None \<Rightarrow> None
      | Some fs \<Rightarrow> if i < length fs then fs ! i else None)"

text \<open>
  Modelled from the spec: \<open>LLViewerObject::setTEImage\<close>, which binds a face of an object
  to the texture of the given identity.
\<close>

definition setTEImage :: "nat \<Rightarrow> nat \<Rightarrow> LLUUID \<Rightarrow> globals \<Rightarrow> globals" where
  "setTEImage oi fi new_id g =
     record_call (Call_setTEImage oi fi new_id)
       (case getObject oi g of
          None \<Rightarrow> g
        | Some obj \<Rightarrow>
            g\<lparr>gObjectList := (gObjectList g)
                 [oi := Some (obj\<lparr>mDrawable := map_option (\<lambda>fs. fs[fi := Some (Some new_id)])
                                                (mDrawable obj)\<rparr>)]\<rparr>)"

text \<open>
  Modelled from the spec: \<open>LLViewerObject::sendTEUpdate\<close>, the request of a network
  update for an object.
\<close>

definition sendTEUpdate :: "nat \<Rightarrow> globals \<Rightarrow> globals" where
  "sendTEUpdate oi g = record_call (Call_sendTEUpdate oi) g"

text \<open>
  Modelled from the spec: \<open>setParameterEntry(PARAMS_SCULPT, new_params, TRUE)\<close>, where
  \<open>new_params\<close> is the object's sculpt parameter block with its sculpt texture set to
  the given identity: the sculpt texture of the object becomes that identity.
\<close>

definition setParameterEntry :: "nat \<Rightarrow> LLUUID \<Rightarrow> globals \<Rightarrow> globals" where
  "setParameterEntry oi new_id g =
     record_call (Call_setParameterEntry oi new_id)
       (case getObject oi g of
          None \<Rightarrow> g
        | Some obj \<Rightarrow>
            g\<lparr>gObjectList := (gObjectList g)[oi := Some (obj\<lparr>mVolume := Some new_id\<rparr>)]\<rparr>)"

text \<open>
  Modelled from the spec: \<open>gAgentAvatarp->setLocalTexture\<close> with the image of the given
  identity, which sets the active texture of a channel of the avatar for the wearable at
  the given index.
\<close>

definition setLocalTexture :: "ETextureIndex \<Rightarrow> LLUUID \<Rightarrow> nat \<Rightarrow> globals \<Rightarrow> globals" where
  "setLocalTexture te new_id index g =
     record_call (Call_setLocalTexture te new_id index)
       (g\<lparr>mLocalTextures := (mLocalTextures g)((te, index) := Some new_id)\<rparr>)"

text \<open>
  Modelled from the spec: \<open>gAgentAvatarp->wearableUpdated\<close>, which marks the layer of a
  wearable category dirty.
\<close>

definition wearableUpdated :: "EType \<Rightarrow> globals \<Rightarrow> globals" where
  "wearableUpdated type g = record_call (Call_wearableUpdated type) g"


subsection \<open>\<open>LLLocalBitmap::decodeBitmap\<close>\<close>

text \<open>\<open>img->load(mFilename) && img->decode(rawimg)\<close>: the decode runs only after a load that succeeded.\<close>

definition load_and_decode :: "EExtensionType \<Rightarrow> string \<Rightarrow> globals \<Rightarrow> bool \<times> globals" where
  "load_and_decode fmt fn g =
     (let (loaded, g1) = LLImage_load fmt fn g
      in if loaded then LLImage_decode fmt fn g1 else (False, g1))"

text \<open>
  The \<open>switch\<close> of \<open>decodeBitmap\<close>, one definition per \<open>case\<close> label. A block returns
  \<open>true\<close> from inside its \<open>if\<close>; no block ends in \<open>break\<close>, so a block whose \<open>if\<close>
  fails runs into the block of the next label, and the last one into \<open>default\<close> and the
  final \<open>return false\<close>.
\<close>

definition case_ET_IMG_PNG :: "string \<Rightarrow> globals \<Rightarrow> bool \<times> globals" where
  "case_ET_IMG_PNG fn g =
     (let (ok, g1) = load_and_decode ET_IMG_PNG fn g
      in if ok then (True, biasedScaleToPowerOfTwo g1) else (False, g1))"

definition case_ET_IMG_JPG :: "string \<Rightarrow> globals \<Rightarrow> bool \<times> globals" where
  "case_ET_IMG_JPG fn g =
     (let (ok, g1) = load_and_decode ET_IMG_JPG fn g
      in if ok then (True, biasedScaleToPowerOfTwo g1) else case_ET_IMG_PNG fn g1)"

definition case_ET_IMG_TGA :: "string \<Rightarrow> globals \<Rightarrow> bool \<times> globals" where
  "case_ET_IMG_TGA fn g =
     (let (ok, g1) = load_and_decode ET_IMG_TGA fn g
      in if ok \<and> (getComponents fn g1 = 3 \<or> getComponents fn g1 = 4)
         then (True, biasedScaleToPowerOfTwo g1) else case_ET_IMG_JPG fn g1)"

definition case_ET_IMG_BMP :: "string \<Rightarrow> globals \<Rightarrow> bool \<times> globals" where
  "case_ET_IMG_BMP fn g =
     (let (ok, g1) = load_and_decode ET_IMG_BMP fn g
      in if ok then (True, biasedScaleToPowerOfTwo g1) else case_ET_IMG_TGA fn g1)"

definition decodeBitmap :: "LLLocalBitmap \<Rightarrow> globals \<Rightarrow> bool \<times> globals" where
  "decodeBitmap u g =
     (case mExtension u of
        ET_IMG_BMP \<Rightarrow> case_ET_IMG_BMP (mFilename u) g
      | ET_IMG_TGA \<Rightarrow> case_ET_IMG_TGA (mFilename u) g
      | ET_IMG_JPG \<Rightarrow> case_ET_IMG_JPG (mFilename u) g
      | ET_IMG_PNG \<Rightarrow> case_ET_IMG_PNG (mFilename u) g)"

subsection \<open>\<open>LLLocalBitmap::getTexIndex\<close>\<close>

definition getTexIndex :: "EType \<Rightarrow> EBakedTextureIndex \<Rightarrow> ETextureIndex" where
  "getTexIndex type baked_texind =
     (let result = TEX_NUM_INDICES in
      case type of
        WT_ALPHA \<Rightarrow>
          (case baked_texind of
             BAKED_EYES \<Rightarrow> TEX_EYES_ALPHA
           | BAKED_HAIR \<Rightarrow> TEX_HAIR_ALPHA
           | BAKED_HEAD \<Rightarrow> TEX_HEAD_ALPHA
           | BAKED_LOWER \<Rightarrow> TEX_LOWER_ALPHA
           | BAKED_UPPER \<Rightarrow> TEX_UPPER_ALPHA
           | _ \<Rightarrow> result)
      | WT_EYES \<Rightarrow> if baked_texind = BAKED_EYES then TEX_EYES_IRIS else result
      | WT_GLOVES \<Rightarrow> if baked_texind = BAKED_UPPER then TEX_UPPER_GLOVES else result
      | WT_JACKET \<Rightarrow>
          if baked_texind = BAKED_LOWER then TEX_LOWER_JACKET
          else if baked_texind = BAKED_UPPER then TEX_UPPER_JACKET
          else result
      | WT_PANTS \<Rightarrow> if baked_texind = BAKED_LOWER then TEX_LOWER_PANTS else result
      | WT_SHIRT \<Rightarrow> if baked_texind = BAKED_UPPER then TEX_UPPER_SHIRT else result
      | WT_SHOES \<Rightarrow> if baked_texind = BAKED_LOWER then TEX_LOWER_SHOES else result
      | WT_SKIN \<Rightarrow>
          (case baked_texind of
             BAKED_HEAD \<Rightarrow> TEX_HEAD_BODYPAINT
           | BAKED_LOWER \<Rightarrow> TEX_LOWER_BODYPAINT
           | BAKED_UPPER \<Rightarrow> TEX_UPPER_BODYPAINT
           | _ \<Rightarrow> result)
      | WT_SKIRT \<Rightarrow> if baked_texind = BAKED_SKIRT then TEX_SKIRT else result
      | WT_SOCKS \<Rightarrow> if baked_texind = BAKED_LOWER then TEX_LOWER_SOCKS else result
      | WT_TATTOO \<Rightarrow>
          (case baked_texind of
             BAKED_HEAD \<Rightarrow> TEX_HEAD_TATTOO
           | BAKED_LOWER \<Rightarrow> TEX_LOWER_TATTOO
           | BAKED_UPPER \<Rightarrow> TEX_UPPER_TATTOO
           | _ \<Rightarrow> result)
      | WT_UNDERPANTS \<Rightarrow> if baked_texind = BAKED_LOWER then TEX_LOWER_UNDERPANTS else result
      | WT_UNDERSHIRT \<Rightarrow> if baked_texind = BAKED_UPPER then TEX_UPPER_UNDERSHIRT else result
      | WT_OTHER \<Rightarrow> result)"

subsection \<open>The replacement propagator\<close>

text \<open>
  \<open>updateUserPrims\<close>: the inner loop over the faces of one object carries \<open>update_obj\<close>.
  The counter \<open>face_iter\<close> is a \<open>U8\<close> compared with the \<open>S32\<close> face count. Face counts
  are below 256 (see the collaborators), so the counter does not wrap around and runs
  over \<open>[0..<mNumFaces]\<close>.
\<close>

definition face_step :: "LLUUID \<Rightarrow> LLUUID \<Rightarrow> nat \<Rightarrow> nat \<Rightarrow> bool \<times> globals \<Rightarrow> bool \<times> globals" where
  "face_step old_id new_id oi face_iter acc =
     (case acc of (update_obj, g) \<Rightarrow>
        (case getObject oi g of
           None \<Rightarrow> (update_obj, g)
         | Some object \<Rightarrow>
             (case getFace object face_iter of
                Some (Some texture_id) \<Rightarrow>
                  if texture_id = old_id
                  then (True, setTEImage oi face_iter new_id g)
                  else (update_obj, g)
              | _ \<Rightarrow> (update_obj, g))))"

definition object_step :: "LLUUID \<Rightarrow> LLUUID \<Rightarrow> nat \<Rightarrow> globals \<Rightarrow> globals" where
  "object_step old_id new_id object_iter g =
     (case getObject object_iter g of
        None \<Rightarrow> g
      | Some object \<Rightarrow>
          (case fold (face_step old_id new_id object_iter) [0..<mNumFaces object] (False, g) of
             (update_obj, g1) \<Rightarrow> if update_obj then sendTEUpdate object_iter g1 else g1))"

definition updateUserPrims :: "LLUUID \<Rightarrow> LLUUID \<Rightarrow> globals \<Rightarrow> globals" where
  "updateUserPrims old_id new_id g =
     fold (object_step old_id new_id) [0..<length (gObjectList g)] g"

definition sculpt_step :: "LLUUID \<Rightarrow> LLUUID \<Rightarrow> nat \<Rightarrow> globals \<Rightarrow> globals" where
  "sculpt_step old_id new_id object_iter g =
     (case getObject object_iter g of
        None \<Rightarrow> g
      | Some object \<Rightarrow>
          if isSculpted object \<and> mVolume object \<noteq> None \<and> mVolume object = Some old_id
          then setParameterEntry object_iter new_id g
          else g)"

definition updateUserSculpts :: "LLUUID \<Rightarrow> LLUUID \<Rightarrow> globals \<Rightarrow> globals" where
  "updateUserSculpts old_id new_id g =
     fold (sculpt_step old_id new_id) [0..<length (gObjectList g)] g"

definition setNeedsRebake :: "globals \<Rightarrow> globals" where
  "setNeedsRebake g = g\<lparr>sNeedsRebake := True\<rparr>"

text \<open>
  \<open>updateUserLayers\<close>: two nested loops with two \<open>return\<close> statements. The inner loop
  (\<open>layer_textures\<close>, over the local texture objects of one wearable) answers whether it
  left the function by \<open>return\<close>; the outer one (\<open>layer_wearables\<close>, over the worn
  instances of the category) stops when it did, and at a null wearable.
  \<open>getWearableIndex(wearable)\<close> is the position \<open>wearable_iter\<close> the wearable was read from.
\<close>

fun layer_textures ::
  "LLUUID \<Rightarrow> LLUUID \<Rightarrow> EType \<Rightarrow> nat \<Rightarrow> LLLocalTextureObject option list \<Rightarrow> globals
     \<Rightarrow> bool \<times> globals" where
  "layer_textures old_id new_id type index [] g = (False, g)"
| "layer_textures old_id new_id type index (None # texture_list) g =
     layer_textures old_id new_id type index texture_list g"
| "layer_textures old_id new_id type index (Some lto # texture_list) g =
     (if mID lto = old_id then
        (let reg_texind = getTexIndex type (bakedTexIndex lto) in
         if reg_texind = TEX_NUM_INDICES then (True, g)
         else layer_textures old_id new_id type index texture_list
                (setNeedsRebake (wearableUpdated type (setLocalTexture reg_texind new_id index g))))
      else layer_textures old_id new_id type index texture_list g)"

fun layer_wearables ::
  "LLUUID \<Rightarrow> LLUUID \<Rightarrow> EType \<Rightarrow> nat \<Rightarrow> LLWearable option list \<Rightarrow> globals \<Rightarrow> globals" where
  "layer_wearables old_id new_id type wearable_iter [] g = g"
| "layer_wearables old_id new_id type wearable_iter (None # wearables) g = g"
| "layer_wearables old_id new_id type wearable_iter (Some wearable # wearables) g =
     (case layer_textures old_id new_id type wearable_iter wearable g of
        (returned, g1) \<Rightarrow>
          if returned then g1
          else layer_wearables old_id new_id type (Suc wearable_iter) wearables g1)"

definition updateUserLayers :: "LLUUID \<Rightarrow> LLUUID \<Rightarrow> EType \<Rightarrow> globals \<Rightarrow> globals" where
  "updateUserLayers old_id new_id type g =
     layer_wearables old_id new_id type 0 (gAgentWearables g type) g"

text \<open>The categories \<open>replaceIDs\<close> hands to \<open>updateUserLayers\<close>, in the order of its calls.\<close>

definition replaceIDs_layer_types :: "EType list" where
  "replaceIDs_layer_types =
     [WT_ALPHA, WT_EYES, WT_GLOVES, WT_JACKET, WT_PANTS, WT_SHIRT, WT_SHOES, WT_SKIN,
      WT_SKIRT, WT_SOCKS, WT_TATTOO, WT_UNDERPANTS, WT_UNDERSHIRT]"

definition replaceIDs :: "constants \<Rightarrow> LLUUID \<Rightarrow> LLUUID \<Rightarrow> globals \<Rightarrow> globals" where
  "replaceIDs K old_id new_id g =
     (if old_id = new_id then g
      else
        (let g1 = updateUserPrims old_id new_id g;
             g2 = updateUserSculpts old_id new_id g1;
             layer_id = (if new_id = IMG_DEFAULT K then IMG_DEFAULT_AVATAR K else new_id)
         in fold (updateUserLayers old_id layer_id) replaceIDs_layer_types g2))"

subsection \<open>\<open>LLLocalBitmap::updateSelf\<close>\<close>

text \<open>
  The result is the value returned, the unit and the globals after the call. A file that
  does not exist is \<open>None\<close> in \<open>files\<close>; \<open>new_last_modified\<close> is read from the file found.
\<close>

definition updateSelf ::
  "constants \<Rightarrow> bool \<Rightarrow> LLLocalBitmap \<Rightarrow> globals \<Rightarrow> bool \<times> LLLocalBitmap \<times> globals" where
  "updateSelf K first_update u g =
     (if mLinkStatus u = LS_ON then
        (case files g (mFilename u) of
           None \<Rightarrow> (False, u\<lparr>mLinkStatus := LS_BROKEN\<rparr>, g)
         | Some f \<Rightarrow>
             (let new_last_modified = last_write_time f in
              if mLastModified u = new_last_modified then (False, u, g)
              else
                (case decodeBitmap u g of
                   (True, g1) \<Rightarrow>
                     (let old_id = (if \<not> first_update \<and> \<not> isNull (mWorldID u)
                                    then mWorldID u else LLUUID_null);
                          (world_id, g2) = generate g1;
                          u1 = u\<lparr>mWorldID := world_id, mLastModified := new_last_modified\<rparr>;
                          g3 = addImage world_id g2
                      in if \<not> first_update
                         then (True, u1, deleteImage old_id (replaceIDs K old_id world_id g3))
                         else (True, u1, g3))
                 | (False, g1) \<Rightarrow>
                     if mUpdateRetries u \<noteq> 0
                     then (False, u\<lparr>mUpdateRetries := mUpdateRetries u - 1\<rparr>, g1)
                     else (False, u\<lparr>mLinkStatus := LS_BROKEN\<rparr>, g1))))
      else (False, u, g))"

subsection \<open>\<open>LLLocalBitmapMgr\<close>\<close>






definition getWorldID :: "LLUUID \<Rightarrow> globals \<Rightarrow> LLUUID" where
  "getWorldID tracking_id g =
     fold (\<lambda>unit world_id. if mTrackingID unit = tracking_id then mWorldID unit else world_id)
       (sBitmapList g) LLUUID_null"

definition getFilename :: "LLUUID \<Rightarrow> globals \<Rightarrow> string" where
  "getFilename tracking_id g =
     fold (\<lambda>unit filename. if mTrackingID unit = tracking_id then mFilename unit else filename)
       (sBitmapList g) ''''"

section \<open>Vocabulary of the properties\<close>

subsection \<open>Recorded calls\<close>

text \<open>
  The calls recorded between two states, and what is read off them: how often the avatar
  was rebaked, and whether a clothing-layer channel was retargeted.
\<close>

fun is_forceBakeAllTextures :: "call \<Rightarrow> bool" where
  "is_forceBakeAllTextures (Call_forceBakeAllTextures slam) = True"
| "is_forceBakeAllTextures _ = False"

fun is_setLocalTexture :: "call \<Rightarrow> bool" where
  "is_setLocalTexture (Call_setLocalTexture te new_id index) = True"
| "is_setLocalTexture _ = False"








definition no_rebake :: "call \<Rightarrow> bool" where
  "no_rebake c = (\<not> is_forceBakeAllTextures c)"

text \<open>
  \<open>step_rel P g g'\<close>: from \<open>g\<close> to \<open>g'\<close> the record of calls only grew, every call
  added satisfies \<open>P\<close>, and the rebake flag is raised in \<open>g'\<close> exactly when it was raised
  in \<open>g\<close> or a local texture was set in between.
\<close>

definition step_rel :: "(call \<Rightarrow> bool) \<Rightarrow> globals \<Rightarrow> globals \<Rightarrow> bool" where
  "step_rel P g g' =
     (\<exists>cs. calls g' = calls g @ cs \<and> list_all P cs \<and>
           (sNeedsRebake g' = (sNeedsRebake g \<or> list_ex is_setLocalTexture cs)))"



subsection \<open>What a consumer references\<close>







subsection \<open>Skipping an unmapped slot\<close>

text \<open>
  A second version of \<open>updateUserLayers\<close>, written from the words of the specification
  and not from the source: a slot whose wearable category and baked region have no entry in
  \<open>getTexIndex\<close> is passed over, and the loops go on with the next slot and the next
  worn instance. It differs from \<open>updateUserLayers\<close> only in that branch.
\<close>

fun layer_textures_skipping ::
  "LLUUID \<Rightarrow> LLUUID \<Rightarrow> EType \<Rightarrow> nat \<Rightarrow> LLLocalTextureObject option list \<Rightarrow> globals
     \<Rightarrow> globals" where
  "layer_textures_skipping old_id new_id type index [] g = g"
| "layer_textures_skipping old_id new_id type index (None # texture_list) g =
     layer_textures_skipping old_id new_id type index texture_list g"
| "layer_textures_skipping old_id new_id type index (Some lto # texture_list) g =
     (if mID lto = old_id then
        (let reg_texind = getTexIndex type (bakedTexIndex lto) in
         if reg_texind = TEX_NUM_INDICES
         then layer_textures_skipping old_id new_id type index texture_list g
         else layer_textures_skipping old_id new_id type index texture_list
                (setNeedsRebake (wearableUpdated type (setLocalTexture reg_texind new_id index g))))
      else layer_textures_skipping old_id new_id type index texture_list g)"

fun layer_wearables_skipping ::
  "LLUUID \<Rightarrow> LLUUID \<Rightarrow> EType \<Rightarrow> nat \<Rightarrow> LLWearable option list \<Rightarrow> globals \<Rightarrow> globals" where
  "layer_wearables_skipping old_id new_id type wearable_iter [] g = g"
| "layer_wearables_skipping old_id new_id type wearable_iter (None # wearables) g = g"
| "layer_wearables_skipping old_id new_id type wearable_iter (Some wearable # wearables) g =
     layer_wearables_skipping old_id new_id type (Suc wearable_iter) wearables
       (layer_textures_skipping old_id new_id type wearable_iter wearable g)"

definition updateUserLayers_skipping :: "LLUUID \<Rightarrow> LLUUID \<Rightarrow> EType \<Rightarrow> globals \<Rightarrow> globals" where
  "updateUserLayers_skipping old_id new_id type g =
     layer_wearables_skipping old_id new_id type 0 (gAgentWearables g type) g"

subsection \<open>Example states\<close>

text \<open>
  One unit watches \<open>a.bmp\<close>, last seen at \<open>Mon\<close> and published as identity 10. The world
  has one sculpted object with two faces, the first bound to 10, and its sculpt texture is
  10; the avatar wears one pair of eyes whose iris slot references 10. The file on disk
  changed (\<open>Tue\<close>); it is a sound bitmap in \<open>example_globals\<close>, a TGA image under the
  wrong name in \<open>misnamed_tga_globals\<close>, unreadable by every decoder in
  \<open>undecodable_globals\<close> and gone in \<open>missing_file_globals\<close>. In
  \<open>unmapped_slot_globals\<close> the avatar wears three pairs of eyes, and the first slot of
  the second pair sits on the head region, which \<open>getTexIndex\<close> does not map for eyes.
  In \<open>shared_tracking_globals\<close> the registry holds three units, the first two under
  the same tracking identity.
\<close>

definition example_constants :: constants where
  "example_constants = \<lparr>IMG_DEFAULT = 1, IMG_DEFAULT_AVATAR = 2\<rparr>"

definition example_unit :: LLLocalBitmap where
  "example_unit =
     \<lparr>mFilename = ''a.bmp'', mShortName = ''a'', mValid = True, mLastModified = ''Mon'',
      mLinkStatus = LS_ON, mUpdateRetries = 5, mTrackingID = 100, mWorldID = 10,
      mExtension = ET_IMG_BMP\<rparr>"

definition bmp_file :: disk_file where
  "bmp_file =
     \<lparr>last_write_time = ''Tue'', load_ok = (\<lambda>fmt. fmt = ET_IMG_BMP),
      decode_ok = (\<lambda>fmt. fmt = ET_IMG_BMP), tga_components = 0\<rparr>"

definition tga_file :: disk_file where
  "tga_file =
     \<lparr>last_write_time = ''Tue'', load_ok = (\<lambda>fmt. fmt = ET_IMG_TGA),
      decode_ok = (\<lambda>fmt. fmt = ET_IMG_TGA), tga_components = 3\<rparr>"

definition undecodable_file :: disk_file where
  "undecodable_file =
     \<lparr>last_write_time = ''Tue'', load_ok = (\<lambda>_. False), decode_ok = (\<lambda>_. False),
      tga_components = 0\<rparr>"

definition example_object :: LLViewerObject where
  "example_object =
     \<lparr>mNumFaces = 2, mDrawable = Some [Some (Some 10), Some (Some 7)], isSculpted = True,
      mVolume = Some 10\<rparr>"

definition example_globals :: globals where
  "example_globals =
     \<lparr>files = (\<lambda>fn. if fn = ''a.bmp'' then Some bmp_file else None),
      uuid_source = (\<lambda>n. 1000 + of_nat n), uuid_drawn = 0,
      gObjectList = [Some example_object],
      gAgentWearables =
        (\<lambda>type. if type = WT_EYES then [Some [Some \<lparr>mID = 10, bakedTexIndex = BAKED_EYES\<rparr>]]
                 else []),
      mLocalTextures = (\<lambda>_. None),
      sBitmapList = [example_unit], sTimer = True, sNeedsRebake = False, calls = []\<rparr>"

definition undecodable_globals :: globals where
  "undecodable_globals =
     example_globals\<lparr>files := (\<lambda>fn. if fn = ''a.bmp'' then Some undecodable_file else None)\<rparr>"

definition misnamed_tga_globals :: globals where
  "misnamed_tga_globals =
     example_globals\<lparr>files := (\<lambda>fn. if fn = ''a.bmp'' then Some tga_file else None)\<rparr>"

definition missing_file_globals :: globals where
  "missing_file_globals = example_globals\<lparr>files := (\<lambda>fn. None)\<rparr>"

definition shared_tracking_globals :: globals where
  "shared_tracking_globals =
     example_globals
       \<lparr>sBitmapList :=
          [example_unit,
           example_unit\<lparr>mFilename := ''b.png'', mWorldID := 11\<rparr>,
           example_unit\<lparr>mFilename := ''c.tga'', mWorldID := 12, mTrackingID := 101\<rparr>]\<rparr>"

definition unmapped_slot_globals :: globals where
  "unmapped_slot_globals =
     example_globals
       \<lparr>gAgentWearables :=
          (\<lambda>type. if type = WT_EYES
                   then [Some [Some \<lparr>mID = 10, bakedTexIndex = BAKED_EYES\<rparr>],
                         Some [Some \<lparr>mID = 10, bakedTexIndex = BAKED_HEAD\<rparr>,
                               Some \<lparr>mID = 10, bakedTexIndex = BAKED_EYES\<rparr>],
                         Some [Some \<lparr>mID = 10, bakedTexIndex = BAKED_EYES\<rparr>]]
                   else [])\<rparr>"

section \<open>Properties\<close>

subsection \<open>Calls made by the propagator and by a refresh\<close>

lemma step_rel_refl: "step_rel P g g"
  by (simp add: step_rel_def)

lemma step_rel_trans:
  assumes "step_rel P g g1" and "step_rel P g1 g2"
  shows "step_rel P g g2"
proof -
  from assms(1) obtain cs where a: "calls g1 = calls g @ cs" "list_all P cs"
    "sNeedsRebake g1 = (sNeedsRebake g \<or> list_ex is_setLocalTexture cs)"
    unfolding step_rel_def by blast
  from assms(2) obtain ds where b: "calls g2 = calls g1 @ ds" "list_all P ds"
    "sNeedsRebake g2 = (sNeedsRebake g1 \<or> list_ex is_setLocalTexture ds)"
    unfolding step_rel_def by blast
  have "calls g2 = calls g @ (cs @ ds)" using a b by simp
  moreover have "list_all P (cs @ ds)" using a b by simp
  moreover have "sNeedsRebake g2 = (sNeedsRebake g \<or> list_ex is_setLocalTexture (cs @ ds))"
    using a b by auto
  ultimately show ?thesis unfolding step_rel_def by blast
qed



lemma step_rel_record_call:
  "P c \<Longrightarrow> \<not> is_setLocalTexture c \<Longrightarrow> step_rel P g (record_call c g)"
  by (simp add: step_rel_def record_call_def)















lemma step_rel_load_and_decode:
  "step_rel no_rebake g (snd (load_and_decode fmt fn g))"
  by (simp add: load_and_decode_def LLImage_load_def LLImage_decode_def step_rel_def
      record_call_def no_rebake_def)

lemma step_rel_scale: "step_rel no_rebake g (biasedScaleToPowerOfTwo g)"
  by (simp add: biasedScaleToPowerOfTwo_def step_rel_record_call no_rebake_def)

lemma step_rel_case_block:
  assumes "\<And>h. step_rel no_rebake h (snd (next_block h))"
  shows "step_rel no_rebake g
           (snd (case load_and_decode fmt fn g of
                   (ok, g1) \<Rightarrow> if c ok g1 then (True, biasedScaleToPowerOfTwo g1) else next_block g1))"
proof -
  obtain ok g1 where l: "load_and_decode fmt fn g = (ok, g1)"
    by (cases "load_and_decode fmt fn g")
  have s1: "step_rel no_rebake g g1" using step_rel_load_and_decode [of g fmt fn] l by simp
  show ?thesis
    using l step_rel_trans [OF s1 step_rel_scale] step_rel_trans [OF s1 assms]
    by simp
qed

lemma step_rel_case_PNG: "step_rel no_rebake g (snd (case_ET_IMG_PNG fn g))"
  unfolding case_ET_IMG_PNG_def Let_def
  using step_rel_case_block [where next_block = "\<lambda>h. (False, h)" and c = "\<lambda>ok g1. ok"]
  by (simp add: step_rel_refl)

lemma step_rel_case_JPG: "step_rel no_rebake g (snd (case_ET_IMG_JPG fn g))"
  unfolding case_ET_IMG_JPG_def Let_def
  using step_rel_case_block [where next_block = "case_ET_IMG_PNG fn" and c = "\<lambda>ok g1. ok"]
  by (simp add: step_rel_case_PNG)








subsection \<open>Faces, sculpts and channels after a replacement\<close>






































subsection \<open>Refreshing a unit\<close>

text \<open>
  C1. A unit whose link is broken is refreshed in vain: \<open>updateSelf\<close> returns \<open>false\<close>
  and hands back the unit and the globals as they were, so \<open>mWorldID\<close>,
  \<open>mLastModified\<close>, \<open>mUpdateRetries\<close> and \<open>mLinkStatus\<close> keep their values and no new
  texture identity is drawn. The unit returned is still broken, hence the same holds for
  every later call.
\<close>

theorem updateSelf_broken_unit:
  "mLinkStatus u = LS_BROKEN \<Longrightarrow> updateSelf K first_update u g = (False, u, g)"
  by (simp add: updateSelf_def)

text \<open>
  The example unit, broken, in a state where its file changed and would decode.
\<close>

theorem updateSelf_broken_unit_witness:
  "updateSelf example_constants False (example_unit\<lparr>mLinkStatus := LS_BROKEN\<rparr>) example_globals =
     (False, example_unit\<lparr>mLinkStatus := LS_BROKEN\<rparr>, example_globals)"
  using updateSelf_broken_unit [of "example_unit\<lparr>mLinkStatus := LS_BROKEN\<rparr>"] by simp

lemma sint_dec: "0 <s (x :: 32 word) \<Longrightarrow> sint (x - 1) = sint x - 1"
proof -
  assume h: "0 <s x"
  have pos: "0 < sint x" using h by (simp add: word_sless_alt)
  have ub: "sint x < 2 ^ 31" using sint_lt [of x] by simp
  have "sint (x - 1) = signed_take_bit 31 (sint x - 1)"
    by (simp add: sint_word_ariths)
  also have "\<dots> = sint x - 1"
    using pos ub by (intro signed_take_bit_int_eq_self) auto
  finally show ?thesis .
qed

text \<open>
  C2. A decode failure in \<open>updateSelf\<close> on a unit whose link is on (the file exists, its
  write time differs from the one remembered, and \<open>decodeBitmap\<close> answers \<open>false\<close>)
  returns \<open>false\<close>. While \<open>mUpdateRetries\<close> is positive the failure takes exactly one
  from it, as a signed 32-bit number, and the link stays on; when \<open>mUpdateRetries\<close> is
  zero the failure breaks the link and leaves the counter at zero.
\<close>

theorem updateSelf_decode_failure:
  assumes "mLinkStatus u = LS_ON"
    and "files g (mFilename u) = Some f"
    and "mLastModified u \<noteq> last_write_time f"
    and "\<not> fst (decodeBitmap u g)"
  shows "\<not> fst (updateSelf K first_update u g) \<and>
         (0 <s mUpdateRetries u \<longrightarrow>
            fst (snd (updateSelf K first_update u g)) = u\<lparr>mUpdateRetries := mUpdateRetries u - 1\<rparr> \<and>
            sint (mUpdateRetries u - 1) = sint (mUpdateRetries u) - 1 \<and>
            mLinkStatus (fst (snd (updateSelf K first_update u g))) = LS_ON) \<and>
         (mUpdateRetries u = 0 \<longrightarrow>
            fst (snd (updateSelf K first_update u g)) = u\<lparr>mLinkStatus := LS_BROKEN\<rparr>)"
proof -
  obtain g1 where d: "decodeBitmap u g = (False, g1)"
    using assms(4) by (cases "decodeBitmap u g") auto
  have r: "updateSelf K first_update u g =
             (if mUpdateRetries u \<noteq> 0
              then (False, u\<lparr>mUpdateRetries := mUpdateRetries u - 1\<rparr>, g1)
              else (False, u\<lparr>mLinkStatus := LS_BROKEN\<rparr>, g1))"
    using assms(1-3) d by (simp add: updateSelf_def)
  have nz: "0 <s mUpdateRetries u \<Longrightarrow> mUpdateRetries u \<noteq> 0" by auto
  show ?thesis using r nz assms(1) by (auto simp: sint_dec)
qed

text \<open>
  The example unit with five retries left, and with none, over a file no decoder reads.
\<close>

theorem updateSelf_decode_failure_witness:
  "fst (snd (updateSelf example_constants False example_unit undecodable_globals)) =
     example_unit\<lparr>mUpdateRetries := 4\<rparr> \<and>
   fst (snd (updateSelf example_constants False (example_unit\<lparr>mUpdateRetries := 0\<rparr>)
     undecodable_globals)) = example_unit\<lparr>mUpdateRetries := 0, mLinkStatus := LS_BROKEN\<rparr>"
proof -
  have f: "files undecodable_globals ''a.bmp'' = Some undecodable_file"
    by (simp add: undecodable_globals_def)
  have d5: "\<not> fst (decodeBitmap (example_unit\<lparr>mUpdateRetries := 5\<rparr>) undecodable_globals)"
    by code_simp
  have d0: "\<not> fst (decodeBitmap (example_unit\<lparr>mUpdateRetries := 0\<rparr>) undecodable_globals)"
    by code_simp
  have a: "fst (snd (updateSelf example_constants False (example_unit\<lparr>mUpdateRetries := 5\<rparr>)
             undecodable_globals)) = example_unit\<lparr>mUpdateRetries := 5 - 1\<rparr>"
    using updateSelf_decode_failure [of "example_unit\<lparr>mUpdateRetries := 5\<rparr>" undecodable_globals
        undecodable_file example_constants False] f d5
    by (simp add: example_unit_def undecodable_file_def word_sless_alt)
  have b: "fst (snd (updateSelf example_constants False (example_unit\<lparr>mUpdateRetries := 0\<rparr>)
             undecodable_globals)) = example_unit\<lparr>mUpdateRetries := 0, mLinkStatus := LS_BROKEN\<rparr>"
    using updateSelf_decode_failure [of "example_unit\<lparr>mUpdateRetries := 0\<rparr>" undecodable_globals
        undecodable_file example_constants False] f d0
    by (simp add: example_unit_def undecodable_file_def)
  show ?thesis using a b by (simp add: example_unit_def)
qed

text \<open>
  C9. When the watched file of a unit whose link is on no longer exists, \<open>updateSelf\<close>
  returns \<open>false\<close> and breaks the link; \<open>mUpdateRetries\<close>, \<open>mWorldID\<close> and
  \<open>mLastModified\<close> are unchanged, and so are the globals.
\<close>

theorem updateSelf_missing_file:
  "mLinkStatus u = LS_ON \<Longrightarrow> \<not> fileExists (mFilename u) g \<Longrightarrow>
   updateSelf K first_update u g = (False, u\<lparr>mLinkStatus := LS_BROKEN\<rparr>, g)"
  by (simp add: updateSelf_def fileExists_def)

text \<open>
  The example unit after its file was removed.
\<close>

theorem updateSelf_missing_file_witness:
  "updateSelf example_constants False example_unit missing_file_globals =
     (False, example_unit\<lparr>mLinkStatus := LS_BROKEN\<rparr>, missing_file_globals)"
  using updateSelf_missing_file [of example_unit missing_file_globals example_constants False]
  by (simp add: example_unit_def missing_file_globals_def fileExists_def)

subsection \<open>Decoding\<close>

text \<open>
  A BMP unit whose BMP decoder fails is handed to the block of the next label, and that
  block asks the TGA decoder to load the file.
\<close>

lemma decodeBitmap_bmp_falls_through:
  assumes "mExtension u = ET_IMG_BMP"
    and "\<not> fst (load_and_decode ET_IMG_BMP (mFilename u) g)"
  shows "decodeBitmap u g =
           case_ET_IMG_TGA (mFilename u) (snd (load_and_decode ET_IMG_BMP (mFilename u) g))"
proof -
  obtain ok g1 where ld: "load_and_decode ET_IMG_BMP (mFilename u) g = (ok, g1)"
    by (cases "load_and_decode ET_IMG_BMP (mFilename u) g")
  show ?thesis using assms ld by (simp add: decodeBitmap_def case_ET_IMG_BMP_def)
qed

lemma case_ET_IMG_TGA_loads:
  "\<exists>cs. calls (snd (case_ET_IMG_TGA fn g)) = calls g @ Call_load ET_IMG_TGA fn # cs"
proof -
  have l: "\<exists>cs. calls (snd (load_and_decode ET_IMG_TGA fn g)) =
            calls g @ Call_load ET_IMG_TGA fn # cs"
    by (simp add: load_and_decode_def LLImage_load_def LLImage_decode_def record_call_def)
  obtain ok g1 where ld: "load_and_decode ET_IMG_TGA fn g = (ok, g1)"
    by (cases "load_and_decode ET_IMG_TGA fn g")
  from l ld obtain cs where cs: "calls g1 = calls g @ Call_load ET_IMG_TGA fn # cs" by auto
  have sc: "calls (biasedScaleToPowerOfTwo g1) = calls g @ Call_load ET_IMG_TGA fn # (cs @ [Call_biasedScaleToPowerOfTwo])"
    using cs by (simp add: biasedScaleToPowerOfTwo_def record_call_def)
  obtain ds where ds: "calls (snd (case_ET_IMG_JPG fn g1)) = calls g1 @ ds"
    using step_rel_case_JPG [of g1 fn] unfolding step_rel_def by blast
  have jp: "calls (snd (case_ET_IMG_JPG fn g1)) = calls g @ Call_load ET_IMG_TGA fn # (cs @ ds)"
    using cs ds by simp
  show ?thesis
    using ld sc jp unfolding case_ET_IMG_TGA_def Let_def by auto
qed

text \<open>
  C3. \<open>decodeBitmap\<close> does not keep to the decoder of the unit's format. The example unit
  is a BMP unit; its file is a TGA image that the BMP decoder fails to load. Control falls
  out of the \<open>ET_IMG_BMP\<close> block into the \<open>ET_IMG_TGA\<close> block: the TGA decoder loads and
  decodes the file, the image is scaled, and \<open>decodeBitmap\<close> returns \<open>true\<close>.
\<close>

theorem decodeBitmap_bmp_runs_tga_decoder:
  "mExtension example_unit = ET_IMG_BMP \<and>
   fst (decodeBitmap example_unit misnamed_tga_globals) \<and>
   calls (snd (decodeBitmap example_unit misnamed_tga_globals)) =
     [Call_load ET_IMG_BMP ''a.bmp'', Call_load ET_IMG_TGA ''a.bmp'', Call_decode ET_IMG_TGA,
      Call_biasedScaleToPowerOfTwo]"
  by code_simp

subsection \<open>The update pass\<close>



subsection \<open>Queries\<close>

lemma fold_last_match:
  "fold (\<lambda>u acc. if P u then f u else acc) xs acc =
     (case filter P xs of [] \<Rightarrow> acc | m # ms \<Rightarrow> f (last (m # ms)))"
proof (induction xs arbitrary: acc)
  case Nil show ?case by simp
next
  case (Cons x xs)
  show ?case by (simp add: Cons.IH split: list.splits)
qed

text \<open>
  C10. \<open>getWorldID\<close> and \<open>getFilename\<close> are total. Over the units of the registry that
  carry the tracking identity asked for, taken in registry order, they return
  \<open>LLUUID::null\<close> and the empty string when there is none, and otherwise the world
  identity and the file name of the last of them.
\<close>

theorem getWorldID_getFilename_last_match:
  "getWorldID tracking_id g =
     (case filter (\<lambda>unit. mTrackingID unit = tracking_id) (sBitmapList g) of
        [] \<Rightarrow> LLUUID_null
      | m # ms \<Rightarrow> mWorldID (last (m # ms))) \<and>
   getFilename tracking_id g =
     (case filter (\<lambda>unit. mTrackingID unit = tracking_id) (sBitmapList g) of
        [] \<Rightarrow> ''''
      | m # ms \<Rightarrow> mFilename (last (m # ms)))"
  unfolding getWorldID_def getFilename_def by (simp add: fold_last_match)

text \<open>
  Two units under tracking identity 100: the second one answers. No unit under 7.
\<close>

theorem getWorldID_getFilename_last_match_witness:
  "getWorldID 100 shared_tracking_globals = 11 \<and>
   getFilename 100 shared_tracking_globals = ''b.png'' \<and>
   getWorldID 7 shared_tracking_globals = LLUUID_null \<and>
   getFilename 7 shared_tracking_globals = ''''"
proof -
  have m: "filter (\<lambda>unit. mTrackingID unit = 100) (sBitmapList shared_tracking_globals) =
             [example_unit, example_unit\<lparr>mFilename := ''b.png'', mWorldID := 11\<rparr>]"
    by (simp add: shared_tracking_globals_def example_globals_def example_unit_def)
  have n: "filter (\<lambda>unit. mTrackingID unit = 7) (sBitmapList shared_tracking_globals) = []"
    by (simp add: shared_tracking_globals_def example_globals_def example_unit_def)
  show ?thesis
    using getWorldID_getFilename_last_match [of 100 shared_tracking_globals]
      getWorldID_getFilename_last_match [of 7 shared_tracking_globals]
    unfolding m n by simp
qed

subsection \<open>The propagator\<close>





lemma layer_textures_unmapped:
  assumes "mID lto = old_id" and "getTexIndex type (bakedTexIndex lto) = TEX_NUM_INDICES"
  shows "layer_textures old_id new_id type index (seen @ Some lto # unseen) g =
           (True, snd (layer_textures old_id new_id type index seen g))"
proof (induction seen arbitrary: g)
  case Nil
  show ?case using assms by simp
next
  case (Cons x seen)
  show ?case
  proof (cases x)
    case None
    then show ?thesis by (simp add: Cons.IH)
  next
    case (Some l)
    then show ?thesis by (simp add: Cons.IH Let_def)
  qed
qed

lemma layer_wearables_unmapped:
  assumes "mID lto = old_id" and "getTexIndex type (bakedTexIndex lto) = TEX_NUM_INDICES"
  shows "layer_wearables old_id new_id type i (before @ Some (seen @ Some lto # unseen) # after) g =
           layer_wearables old_id new_id type i (before @ [Some seen]) g"
proof (induction before arbitrary: i g)
  case Nil
  show ?case
    by (simp add: layer_textures_unmapped [OF assms] split: prod.splits)
next
  case (Cons w before)
  show ?case
  proof (cases w)
    case None
    then show ?thesis by simp
  next
    case (Some wr)
    then show ?thesis by (simp add: Cons.IH split: prod.splits)
  qed
qed

text \<open>
  C6, as stated: the unmapped slot alone is skipped. In \<open>unmapped_slot_globals\<close> the
  skipping version retargets the iris slot of all three pairs of eyes; the code retargets
  the first pair only and stops at the unmapped slot of the second.
\<close>

theorem updateUserLayers_unmapped_slot_counterexample:
  "updateUserLayers 10 11 WT_EYES unmapped_slot_globals \<noteq>
     updateUserLayers_skipping 10 11 WT_EYES unmapped_slot_globals \<and>
   calls (updateUserLayers 10 11 WT_EYES unmapped_slot_globals) =
     [Call_setLocalTexture TEX_EYES_IRIS 11 0, Call_wearableUpdated WT_EYES] \<and>
   calls (updateUserLayers_skipping 10 11 WT_EYES unmapped_slot_globals) =
     [Call_setLocalTexture TEX_EYES_IRIS 11 0, Call_wearableUpdated WT_EYES,
      Call_setLocalTexture TEX_EYES_IRIS 11 1, Call_wearableUpdated WT_EYES,
      Call_setLocalTexture TEX_EYES_IRIS 11 2, Call_wearableUpdated WT_EYES]"
proof -
  have code: "calls (updateUserLayers 10 11 WT_EYES unmapped_slot_globals) =
     [Call_setLocalTexture TEX_EYES_IRIS 11 0, Call_wearableUpdated WT_EYES]"
    by code_simp
  have skipping: "calls (updateUserLayers_skipping 10 11 WT_EYES unmapped_slot_globals) =
     [Call_setLocalTexture TEX_EYES_IRIS 11 0, Call_wearableUpdated WT_EYES,
      Call_setLocalTexture TEX_EYES_IRIS 11 1, Call_wearableUpdated WT_EYES,
      Call_setLocalTexture TEX_EYES_IRIS 11 2, Call_wearableUpdated WT_EYES]"
    by code_simp
  have "updateUserLayers 10 11 WT_EYES unmapped_slot_globals \<noteq>
          updateUserLayers_skipping 10 11 WT_EYES unmapped_slot_globals"
  proof
    assume "updateUserLayers 10 11 WT_EYES unmapped_slot_globals =
              updateUserLayers_skipping 10 11 WT_EYES unmapped_slot_globals"
    then have "calls (updateUserLayers 10 11 WT_EYES unmapped_slot_globals) =
                 calls (updateUserLayers_skipping 10 11 WT_EYES unmapped_slot_globals)"
      by simp
    then show False unfolding code skipping by simp
  qed
  then show ?thesis using code skipping by simp
qed

text \<open>
  C6, amended. When a slot that references \<open>old_id\<close> has no entry in \<open>getTexIndex\<close> for
  its wearable category and baked region, no texture is applied for it and
  \<open>updateUserLayers\<close> returns there: the result is the one of the loops run over the worn
  instances before it and the slots before it alone. The slots after it and the worn
  instances after it are not looked at; what was retargeted before stays retargeted.
\<close>

theorem updateUserLayers_unmapped_slot:
  assumes "gAgentWearables g type = before @ Some wearable # after"
    and "wearable = seen @ Some lto # unseen"
    and "mID lto = old_id"
    and "getTexIndex type (bakedTexIndex lto) = TEX_NUM_INDICES"
  shows "updateUserLayers old_id new_id type g =
           layer_wearables old_id new_id type 0 (before @ [Some seen]) g"
  unfolding updateUserLayers_def assms(1) assms(2)
  by (rule layer_wearables_unmapped [OF assms(3) assms(4)])

text \<open>
  The second pair of eyes of \<open>unmapped_slot_globals\<close>: no slot before the unmapped one,
  one pair of eyes before it.
\<close>

theorem updateUserLayers_unmapped_slot_witness:
  "calls (updateUserLayers 10 11 WT_EYES unmapped_slot_globals) =
     calls (layer_wearables 10 11 WT_EYES 0
              [Some [Some \<lparr>mID = 10, bakedTexIndex = BAKED_EYES\<rparr>], Some []]
              unmapped_slot_globals)"
proof -
  have w: "gAgentWearables unmapped_slot_globals WT_EYES =
             [Some [Some \<lparr>mID = 10, bakedTexIndex = BAKED_EYES\<rparr>]] @
             Some [Some \<lparr>mID = 10, bakedTexIndex = BAKED_HEAD\<rparr>,
                   Some \<lparr>mID = 10, bakedTexIndex = BAKED_EYES\<rparr>] #
             [Some [Some \<lparr>mID = 10, bakedTexIndex = BAKED_EYES\<rparr>]]"
    by (simp add: unmapped_slot_globals_def)
  have s: "[Some \<lparr>mID = 10, bakedTexIndex = BAKED_HEAD\<rparr>,
            Some \<lparr>mID = 10, bakedTexIndex = BAKED_EYES\<rparr>] =
           [] @ Some \<lparr>mID = 10, bakedTexIndex = BAKED_HEAD\<rparr> #
           [Some \<lparr>mID = 10, bakedTexIndex = BAKED_EYES\<rparr>]"
    by simp
  have m: "mID \<lparr>mID = 10, bakedTexIndex = BAKED_HEAD\<rparr> = 10" by simp
  have t: "getTexIndex WT_EYES (bakedTexIndex \<lparr>mID = 10, bakedTexIndex = BAKED_HEAD\<rparr>) =
             TEX_NUM_INDICES"
    by (simp add: getTexIndex_def)
  show ?thesis
    using updateUserLayers_unmapped_slot [OF w s m t, of 11] by simp
qed





text \<open>
  C8. \<open>replaceIDs\<close> with the old identity as the new one returns the globals it was
  given: no face, sculpt parameter or avatar channel changes, no call is recorded (so no
  network update is requested), and the rebake flag keeps its value.
\<close>

theorem replaceIDs_same_identity: "replaceIDs K X X g = g"
  by (simp add: replaceIDs_def)

text \<open>
  Identity 10, which a face, the sculpt and the iris slot of the example state reference.
\<close>

theorem replaceIDs_same_identity_witness:
  "replaceIDs example_constants 10 10 example_globals = example_globals"
  using replaceIDs_same_identity [of example_constants 10 example_globals] .

end
